theory Spec2Isabelle
  imports Main
begin

section \<open>SparkSubmitOperator: data model\<close>

text \<open>
  The embedding follows \<^verbatim>\<open>airflow/providers/apache/spark/operators/spark_submit.py\<close>.
  The operator is a bag of fields set by \<^verbatim>\<open>__init__\<close> plus one reference to a
  \<^verbatim>\<open>SparkSubmitHook\<close> object that \<^verbatim>\<open>execute\<close> and \<^verbatim>\<open>on_kill\<close> create on first use.
  The hook class is imported from another module; here it is an external collaborator:
  every call the operator makes on it is appended to a log, and what the call does
  (return or raise) is a parameter of the model.
\<close>

text \<open>Values of Python's \<^verbatim>\<open>Any\<close>, as far as a configuration file can hold them.\<close>

datatype pyval =
    PyNone
  | PyBool bool
  | PyInt int
  | PyStr string
  | PyList "pyval list"
  | PyDict "(string \<times> pyval) list"

text \<open>A \<^verbatim>\<open>Dict[str, Any]\<close> keeps its insertion order, so it is an association list.\<close>

type_synonym pydict = "(string \<times> pyval) list"

text \<open>The \<^verbatim>\<open>context\<close> argument of \<^verbatim>\<open>execute\<close> is a dictionary of the task run.\<close>

type_synonym task_context = pydict

text \<open>
  Modelled from the spec: the exceptions the absent \<^verbatim>\<open>SparkSubmitHook\<close> may raise into
  the operator. Section 7 names \<^verbatim>\<open>ConfigError\<close> and \<^verbatim>\<open>LaunchError\<close> as the faults that
  abort a submission; any other exception of the hook is \<open>HookFault\<close> with its message.
  The operator itself has no \<^verbatim>\<open>raise\<close> statement.
\<close>

datatype error = ConfigError | LaunchError | HookFault string

text \<open>
  The keyword arguments of the call \<^verbatim>\<open>SparkSubmitHook(conf=..., ..., spark_binary=...)\<close>
  in \<^verbatim>\<open>_get_hook\<close>, one field per keyword, in the order of the call.
\<close>

record hook_args =
  conf :: "pydict option"
  conn_id :: string
  files :: "string option"
  py_files :: "string option"
  archives :: "string option"
  driver_class_path :: "string option"
  jars :: "string option"
  java_class :: "string option"
  packages :: "string option"
  exclude_packages :: "string option"
  repositories :: "string option"
  total_executor_cores :: "int option"
  executor_cores :: "int option"
  executor_memory :: "string option"
  driver_memory :: "string option"
  keytab :: "string option"
  principal :: "string option"
  proxy_user :: "string option"
  name :: string
  num_executors :: "int option"
  status_poll_interval :: int
  application_args :: "pyval list option"
  env_vars :: "pydict option"
  verbose :: bool
  spark_binary :: "string option"

text \<open>
  A hook object is referred to by its address. The log holds every call made on the hook
  class and its objects, oldest first: the constructor call with its keyword arguments,
  \<^verbatim>\<open>submit\<close> with the receiving object and the application, \<^verbatim>\<open>on_kill\<close> with the
  receiving object. An object's address is the position of its constructor call in the
  log, so two objects never share one.
\<close>

type_synonym hook_ref = nat

datatype call =
    New hook_args
  | Submit hook_ref string
  | OnKill hook_ref

type_synonym log = "call list"

text \<open>
  What the hook does when called, given everything that was called before: \<open>None\<close> when
  the call returns, \<open>Some e\<close> when it raises \<open>e\<close>.
\<close>

type_synonym hook_behaviour = "log \<Rightarrow> call \<Rightarrow> error option"

text \<open>
  The attributes of a \<^verbatim>\<open>SparkSubmitOperator\<close> instance, in the order \<^verbatim>\<open>__init__\<close> assigns
  them (\<open>self_x\<close> is \<^verbatim>\<open>self._x\<close>). \<open>self_hook\<close> is \<^verbatim>\<open>Optional[SparkSubmitHook]\<close>.
\<close>

record operator =
  self_application :: string
  self_conf :: "pydict option"
  self_files :: "string option"
  self_py_files :: "string option"
  self_archives :: "string option"
  self_driver_class_path :: "string option"
  self_jars :: "string option"
  self_java_class :: "string option"
  self_packages :: "string option"
  self_exclude_packages :: "string option"
  self_repositories :: "string option"
  self_total_executor_cores :: "int option"
  self_executor_cores :: "int option"
  self_executor_memory :: "string option"
  self_driver_memory :: "string option"
  self_keytab :: "string option"
  self_principal :: "string option"
  self_proxy_user :: "string option"
  self_name :: string
  self_num_executors :: "int option"
  self_status_poll_interval :: int
  self_application_args :: "pyval list option"
  self_env_vars :: "pydict option"
  self_verbose :: bool
  self_spark_binary :: "string option"
  self_hook :: "hook_ref option"
  self_conn_id :: string

text \<open>
  The keyword-only parameters of \<^verbatim>\<open>__init__\<close>. Each may be left out of the call
  (\<open>None\<close>) or passed (\<open>Some v\<close>); a parameter of type \<^verbatim>\<open>Optional[str]\<close> that is passed
  carries a \<open>string option\<close>. The remaining \<^verbatim>\<open>**kwargs\<close> go to \<^verbatim>\<open>BaseOperator\<close> and
  set none of the attributes above.
\<close>

record init_kwargs =
  arg_application :: "string option"
  arg_conf :: "pydict option option"
  arg_conn_id :: "string option"
  arg_files :: "string option option"
  arg_py_files :: "string option option"
  arg_archives :: "string option option"
  arg_driver_class_path :: "string option option"
  arg_jars :: "string option option"
  arg_java_class :: "string option option"
  arg_packages :: "string option option"
  arg_exclude_packages :: "string option option"
  arg_repositories :: "string option option"
  arg_total_executor_cores :: "int option option"
  arg_executor_cores :: "int option option"
  arg_executor_memory :: "string option option"
  arg_driver_memory :: "string option option"
  arg_keytab :: "string option option"
  arg_principal :: "string option option"
  arg_proxy_user :: "string option option"
  arg_name :: "string option"
  arg_num_executors :: "int option option"
  arg_status_poll_interval :: "int option"
  arg_application_args :: "pyval list option option"
  arg_env_vars :: "pydict option option"
  arg_verbose :: "bool option"
  arg_spark_binary :: "string option option"

section \<open>Operations\<close>

text \<open>A keyword parameter with default \<open>d\<close>: the default when left out, else the value passed.\<close>

definition kwarg :: "'a \<Rightarrow> 'a option \<Rightarrow> 'a" where
  "kwarg d given = (case given of None \<Rightarrow> d | Some v \<Rightarrow> v)"

text \<open>
  A call that passes none of these keywords (what \<^verbatim>\<open>BaseOperator\<close> needs, such as
  \<^verbatim>\<open>task_id\<close>, travels in \<^verbatim>\<open>**kwargs\<close>).
\<close>

definition no_kwargs :: init_kwargs where
  "no_kwargs =
     \<lparr> arg_application = None, arg_conf = None, arg_conn_id = None, arg_files = None,
       arg_py_files = None, arg_archives = None, arg_driver_class_path = None,
       arg_jars = None, arg_java_class = None, arg_packages = None,
       arg_exclude_packages = None, arg_repositories = None,
       arg_total_executor_cores = None, arg_executor_cores = None,
       arg_executor_memory = None, arg_driver_memory = None, arg_keytab = None,
       arg_principal = None, arg_proxy_user = None, arg_name = None,
       arg_num_executors = None, arg_status_poll_interval = None,
       arg_application_args = None, arg_env_vars = None, arg_verbose = None,
       arg_spark_binary = None \<rparr>"

text \<open>\<^verbatim>\<open>__init__\<close>: the defaults of the signature, then one assignment per attribute.\<close>

definition init :: "init_kwargs \<Rightarrow> operator" where
  "init kw =
     \<lparr> self_application = kwarg '''' (arg_application kw),
       self_conf = kwarg None (arg_conf kw),
       self_files = kwarg None (arg_files kw),
       self_py_files = kwarg None (arg_py_files kw),
       self_archives = kwarg None (arg_archives kw),
       self_driver_class_path = kwarg None (arg_driver_class_path kw),
       self_jars = kwarg None (arg_jars kw),
       self_java_class = kwarg None (arg_java_class kw),
       self_packages = kwarg None (arg_packages kw),
       self_exclude_packages = kwarg None (arg_exclude_packages kw),
       self_repositories = kwarg None (arg_repositories kw),
       self_total_executor_cores = kwarg None (arg_total_executor_cores kw),
       self_executor_cores = kwarg None (arg_executor_cores kw),
       self_executor_memory = kwarg None (arg_executor_memory kw),
       self_driver_memory = kwarg None (arg_driver_memory kw),
       self_keytab = kwarg None (arg_keytab kw),
       self_principal = kwarg None (arg_principal kw),
       self_proxy_user = kwarg None (arg_proxy_user kw),
       self_name = kwarg ''arrow-spark'' (arg_name kw),
       self_num_executors = kwarg None (arg_num_executors kw),
       self_status_poll_interval = kwarg 1 (arg_status_poll_interval kw),
       self_application_args = kwarg None (arg_application_args kw),
       self_env_vars = kwarg None (arg_env_vars kw),
       self_verbose = kwarg False (arg_verbose kw),
       self_spark_binary = kwarg None (arg_spark_binary kw),
       self_hook = None,
       self_conn_id = kwarg ''spark_default'' (arg_conn_id kw) \<rparr>"

text \<open>
  One call on the hook: it is logged, and the hook decides from the log so far whether
  it returns or raises.
\<close>

definition invoke :: "hook_behaviour \<Rightarrow> call \<Rightarrow> log \<Rightarrow> error option \<times> log" where
  "invoke hb c lg = (hb lg c, lg @ [c])"

text \<open>
  The constructor call \<^verbatim>\<open>SparkSubmitHook(**args)\<close>: the new object's address when it
  returns, the exception when it raises.
\<close>

definition SparkSubmitHook :: "hook_behaviour \<Rightarrow> hook_args \<Rightarrow> log \<Rightarrow> (error + hook_ref) \<times> log" where
  "SparkSubmitHook hb args lg =
     (case invoke hb (New args) lg of
        (None, lg') \<Rightarrow> (Inr (length lg), lg')
      | (Some e, lg') \<Rightarrow> (Inl e, lg'))"

text \<open>\<^verbatim>\<open>_get_hook\<close>: one constructor call, each keyword bound to the attribute of its name.\<close>

definition get_hook :: "hook_behaviour \<Rightarrow> operator \<Rightarrow> log \<Rightarrow> (error + hook_ref) \<times> log" where
  "get_hook hb self lg =
     SparkSubmitHook hb
       \<lparr> conf = self_conf self,
         conn_id = self_conn_id self,
         files = self_files self,
         py_files = self_py_files self,
         archives = self_archives self,
         driver_class_path = self_driver_class_path self,
         jars = self_jars self,
         java_class = self_java_class self,
         packages = self_packages self,
         exclude_packages = self_exclude_packages self,
         repositories = self_repositories self,
         total_executor_cores = self_total_executor_cores self,
         executor_cores = self_executor_cores self,
         executor_memory = self_executor_memory self,
         driver_memory = self_driver_memory self,
         keytab = self_keytab self,
         principal = self_principal self,
         proxy_user = self_proxy_user self,
         name = self_name self,
         num_executors = self_num_executors self,
         status_poll_interval = self_status_poll_interval self,
         application_args = self_application_args self,
         env_vars = self_env_vars self,
         verbose = self_verbose self,
         spark_binary = self_spark_binary self \<rparr>
       lg"

text \<open>
  \<^verbatim>\<open>execute\<close>: if there is no hook yet, build one and store it; then call \<^verbatim>\<open>submit\<close> on
  the stored hook with \<^verbatim>\<open>self._application\<close>. An exception of the constructor leaves
  \<^verbatim>\<open>self._hook\<close> as it was and ends the call. The result is the exception raised (if
  any), the operator and the log afterwards.
\<close>

definition execute ::
  "hook_behaviour \<Rightarrow> task_context \<Rightarrow> operator \<Rightarrow> log \<Rightarrow> error option \<times> operator \<times> log" where
  "execute hb context self lg =
     (case self_hook self of
        None \<Rightarrow>
          (case get_hook hb self lg of
             (Inl e, lg1) \<Rightarrow> (Some e, self, lg1)
           | (Inr h, lg1) \<Rightarrow>
               (let self1 = self\<lparr>self_hook := Some h\<rparr>;
                    (r, lg2) = invoke hb (Submit h (self_application self1)) lg1
                in (r, self1, lg2)))
      | Some h \<Rightarrow>
          (let (r, lg2) = invoke hb (Submit h (self_application self)) lg
           in (r, self, lg2)))"

text \<open>\<^verbatim>\<open>on_kill\<close>: the same first step, then \<^verbatim>\<open>on_kill\<close> on the stored hook.\<close>

definition on_kill ::
  "hook_behaviour \<Rightarrow> operator \<Rightarrow> log \<Rightarrow> error option \<times> operator \<times> log" where
  "on_kill hb self lg =
     (case self_hook self of
        None \<Rightarrow>
          (case get_hook hb self lg of
             (Inl e, lg1) \<Rightarrow> (Some e, self, lg1)
           | (Inr h, lg1) \<Rightarrow>
               (let self1 = self\<lparr>self_hook := Some h\<rparr>;
                    (r, lg2) = invoke hb (OnKill h) lg1
                in (r, self1, lg2)))
      | Some h \<Rightarrow>
          (let (r, lg2) = invoke hb (OnKill h) lg
           in (r, self, lg2)))"

text \<open>A hook that returns from every call.\<close>

definition quiet_hook :: hook_behaviour where
  "quiet_hook lg c = None"

text \<open>A hook whose constructor raises \<open>LaunchError\<close>; its other calls return.\<close>

definition broken_hook :: hook_behaviour where
  "broken_hook lg c = (case c of New a \<Rightarrow> Some LaunchError | _ \<Rightarrow> None)"

subsection \<open>Vocabulary for the properties\<close>

text \<open>The \<^verbatim>\<open>submit\<close> calls and the \<^verbatim>\<open>on_kill\<close> calls of a log.\<close>

fun is_submit :: "call \<Rightarrow> bool" where
  "is_submit (Submit h a) = True"
| "is_submit c = False"

fun is_on_kill :: "call \<Rightarrow> bool" where
  "is_on_kill (OnKill h) = True"
| "is_on_kill c = False"

text \<open>The hook objects that received the \<^verbatim>\<open>submit\<close> calls of a log, in order.\<close>

fun receivers :: "log \<Rightarrow> hook_ref list" where
  "receivers [] = []"
| "receivers (Submit h a # cs) = h # receivers cs"
| "receivers (c # cs) = receivers cs"

text \<open>
  Several execution attempts on one operator instance, one \<^verbatim>\<open>execute\<close> call per
  context. An attempt that raises does not stop the caller from making the next one;
  the outcomes are collected in order.
\<close>

fun executes ::
  "hook_behaviour \<Rightarrow> task_context list \<Rightarrow> operator \<Rightarrow> log \<Rightarrow> error option list \<times> operator \<times> log" where
  "executes hb [] self lg = ([], self, lg)"
| "executes hb (c # cs) self lg =
     (case execute hb c self lg of
        (r, self1, lg1) \<Rightarrow>
          (case executes hb cs self1 lg1 of
             (rs, self2, lg2) \<Rightarrow> (r # rs, self2, lg2)))"

text \<open>A task context with no entry.\<close>

definition no_context :: task_context where
  "no_context = []"

text \<open>
  A sample configuration: \<^verbatim>\<open>SparkSubmitOperator(application="job.jar",
  executor_memory="2G", num_executors=3)\<close>.
\<close>

definition job_kwargs :: init_kwargs where
  "job_kwargs =
     no_kwargs\<lparr> arg_application := Some ''job.jar'',
                arg_executor_memory := Some (Some ''2G''),
                arg_num_executors := Some (Some 3) \<rparr>"

section \<open>Basic facts\<close>

lemmas run_defs = execute_def on_kill_def get_hook_def SparkSubmitHook_def invoke_def
  quiet_hook_def init_def job_kwargs_def no_kwargs_def kwarg_def

text \<open>\<^verbatim>\<open>_get_hook\<close> makes exactly one call, the constructor call.\<close>

lemma get_hook_log: "\<exists>a. snd (get_hook hb self lg) = lg @ [New a]"
  by (simp add: get_hook_def SparkSubmitHook_def invoke_def split: option.split)

lemma get_hook_raises:
  "get_hook hb self lg = (Inl e, lg1) \<Longrightarrow> hb (butlast lg1) (last lg1) = Some e"
  by (auto simp: get_hook_def SparkSubmitHook_def invoke_def split: option.splits)

text \<open>It reads neither \<^verbatim>\<open>self._application\<close> nor \<^verbatim>\<open>self._hook\<close>.\<close>

lemma get_hook_application:
  "get_hook hb (self\<lparr>self_application := x\<rparr>) lg = get_hook hb self lg"
  by (simp add: get_hook_def)

text \<open>The three ways through \<^verbatim>\<open>execute\<close>, and through \<^verbatim>\<open>on_kill\<close>.\<close>

lemma execute_cached:
  "self_hook self = Some h \<Longrightarrow>
     execute hb context self lg =
       (hb lg (Submit h (self_application self)), self, lg @ [Submit h (self_application self)])"
  by (simp add: execute_def invoke_def)

lemma execute_built:
  "self_hook self = None \<Longrightarrow> get_hook hb self lg = (Inr h, lg1) \<Longrightarrow>
     execute hb context self lg =
       (hb lg1 (Submit h (self_application self)), self\<lparr>self_hook := Some h\<rparr>,
        lg1 @ [Submit h (self_application self)])"
  by (simp add: execute_def invoke_def)

lemma execute_failed:
  "self_hook self = None \<Longrightarrow> get_hook hb self lg = (Inl e, lg1) \<Longrightarrow>
     execute hb context self lg = (Some e, self, lg1)"
  by (simp add: execute_def)

lemma on_kill_cached:
  "self_hook self = Some h \<Longrightarrow>
     on_kill hb self lg = (hb lg (OnKill h), self, lg @ [OnKill h])"
  by (simp add: on_kill_def invoke_def)

lemma on_kill_built:
  "self_hook self = None \<Longrightarrow> get_hook hb self lg = (Inr h, lg1) \<Longrightarrow>
     on_kill hb self lg = (hb lg1 (OnKill h), self\<lparr>self_hook := Some h\<rparr>, lg1 @ [OnKill h])"
  by (simp add: on_kill_def invoke_def)

lemma on_kill_failed:
  "self_hook self = None \<Longrightarrow> get_hook hb self lg = (Inl e, lg1) \<Longrightarrow>
     on_kill hb self lg = (Some e, self, lg1)"
  by (simp add: on_kill_def)

section \<open>Properties\<close>

subsection \<open>Submission\<close>

text \<open>
  \<^verbatim>\<open>execute\<close> on a new operator whose hook constructor raises: no \<^verbatim>\<open>submit\<close> call is
  made at all, the constructor's exception leaves \<^verbatim>\<open>execute\<close>, and the operator still
  holds no hook.
\<close>

theorem execute_constructor_raises_counterexample:
  "filter is_submit (snd (snd (execute broken_hook no_context (init job_kwargs) []))) = []
   \<and> fst (execute broken_hook no_context (init job_kwargs) []) = Some LaunchError
   \<and> self_hook (fst (snd (execute broken_hook no_context (init job_kwargs) []))) = None"
  by (simp add: run_defs broken_hook_def)

text \<open>
  C1, as the code has it. \<^verbatim>\<open>execute\<close> calls \<^verbatim>\<open>submit\<close> at most once. If afterwards the
  operator holds a hook \<open>h\<close>, then \<open>h\<close> is the hook it held before or, if it held none,
  the one the constructor just returned; only \<^verbatim>\<open>self._hook\<close> has changed; the calls made
  are the constructor call (only if no hook was held) followed by exactly one
  \<^verbatim>\<open>submit\<close> on \<open>h\<close> with exactly \<^verbatim>\<open>self._application\<close>; and \<^verbatim>\<open>execute\<close> returns or
  raises what that \<^verbatim>\<open>submit\<close> call does. If afterwards the operator holds no hook, then
  the constructor raised: no \<^verbatim>\<open>submit\<close> call was made, the only call is the constructor
  call, \<^verbatim>\<open>execute\<close> raises the constructor's exception and the operator is unchanged.
  In both cases the application goes nowhere else: the constructor call is the same
  whatever the application is.
\<close>

theorem execute_submit_calls:
  assumes run: "execute hb context self lg = (r, self', lg')"
  shows "(self_hook self' = Some h \<longrightarrow>
            self' = self\<lparr>self_hook := Some h\<rparr>
          \<and> (case self_hook self of
                Some k \<Rightarrow> h = k
              | None \<Rightarrow> fst (get_hook hb self lg) = Inr h)
          \<and> lg' = (case self_hook self of
                     None \<Rightarrow> snd (get_hook hb self lg)
                   | Some k \<Rightarrow> lg) @ [Submit h (self_application self)]
          \<and> filter is_submit (drop (length lg) lg') = [Submit h (self_application self)]
          \<and> r = hb (butlast lg') (Submit h (self_application self)))
       \<and> (self_hook self' = None \<longrightarrow>
            self' = self
          \<and> filter is_submit (drop (length lg) lg') = []
          \<and> (\<exists>e. r = Some e \<and> get_hook hb self lg = (Inl e, lg')))
       \<and> get_hook hb (self\<lparr>self_application := x\<rparr>) lg = get_hook hb self lg"
proof (cases "self_hook self")
  case (Some k)
  with run show ?thesis
    by (auto simp: execute_cached get_hook_application)
next
  case None
  obtain g lg1 where g: "get_hook hb self lg = (g, lg1)"
    by (cases "get_hook hb self lg")
  obtain a where a: "lg1 = lg @ [New a]"
    using get_hook_log [of hb self lg] g by auto
  show ?thesis
  proof (cases g)
    case (Inl e)
    with None g run a show ?thesis
      by (auto simp: execute_failed get_hook_application)
  next
    case (Inr k)
    with None g run a show ?thesis
      by (auto simp: execute_built get_hook_application butlast_append)
  qed
qed

text \<open>
  The sample job on a hook that returns from every call: the hook is built at address 0
  and receives one \<^verbatim>\<open>submit("job.jar")\<close>. On a hook whose constructor raises: no
  \<^verbatim>\<open>submit\<close>, and \<open>LaunchError\<close> comes out.
\<close>

theorem execute_submit_calls_witness:
  "self_hook (fst (snd (execute quiet_hook no_context (init job_kwargs) []))) = Some 0
   \<and> filter is_submit (drop (length ([]::log))
        (snd (snd (execute quiet_hook no_context (init job_kwargs) [])))) = [Submit 0 ''job.jar'']
   \<and> fst (execute quiet_hook no_context (init job_kwargs) []) = None
   \<and> self_hook (fst (snd (execute broken_hook no_context (init job_kwargs) []))) = None
   \<and> filter is_submit (drop (length ([]::log))
        (snd (snd (execute broken_hook no_context (init job_kwargs) [])))) = []
   \<and> fst (execute broken_hook no_context (init job_kwargs) []) = Some LaunchError"
proof -
  let ?E = "execute quiet_hook no_context (init job_kwargs) []"
  let ?F = "execute broken_hook no_context (init job_kwargs) []"
  have runE: "?E = (fst ?E, fst (snd ?E), snd (snd ?E))"
    by simp
  have runF: "?F = (fst ?F, fst (snd ?F), snd (snd ?F))"
    by simp
  have hookE: "self_hook (fst (snd ?E)) = Some 0"
    by (simp add: run_defs)
  have hookF: "self_hook (fst (snd ?F)) = None"
    by (simp add: run_defs broken_hook_def)
  have app: "self_application (init job_kwargs) = ''job.jar''"
    by (simp add: init_def job_kwargs_def no_kwargs_def kwarg_def)
  have raised: "fst (get_hook broken_hook (init job_kwargs) []) = Inl LaunchError"
    by (simp add: get_hook_def SparkSubmitHook_def invoke_def broken_hook_def)
  from execute_submit_calls [OF runE, of 0, THEN conjunct1] hookE
  have once: "filter is_submit (drop (length ([]::log)) (snd (snd ?E)))
                = [Submit 0 (self_application (init job_kwargs))]"
    and outE: "fst ?E = quiet_hook (butlast (snd (snd ?E))) (Submit 0 (self_application (init job_kwargs)))"
    by blast+
  from execute_submit_calls [OF runF, THEN conjunct2, THEN conjunct1] hookF
  have none: "filter is_submit (drop (length ([]::log)) (snd (snd ?F))) = []"
    and outF: "\<exists>e. fst ?F = Some e \<and> get_hook broken_hook (init job_kwargs) [] = (Inl e, snd (snd ?F))"
    by blast+
  from outF raised have "fst ?F = Some LaunchError"
    by auto
  with hookE hookF once none outE app show ?thesis
    by (simp add: quiet_hook_def)
qed

text \<open>
  C10. \<^verbatim>\<open>execute\<close> never reads its \<^verbatim>\<open>context\<close> argument: from the same operator and
  log, any two contexts give the same calls on the hook (constructor and \<^verbatim>\<open>submit\<close>, with
  the same arguments), the same exception or return, and the same operator afterwards.
\<close>

theorem execute_ignores_context:
  "execute hb context1 self lg = execute hb context2 self lg"
  by (simp add: execute_def)

subsection \<open>Configuration\<close>

text \<open>
  C3. Neither \<^verbatim>\<open>execute\<close> nor \<^verbatim>\<open>on_kill\<close> assigns any configuration attribute: whatever
  the hook does and whether the call returns or raises, the operator afterwards is the
  operator before with at most \<^verbatim>\<open>self._hook\<close> changed, so \<^verbatim>\<open>_application\<close>, \<^verbatim>\<open>_conf\<close>,
  \<^verbatim>\<open>_conn_id\<close>, \<^verbatim>\<open>_files\<close>, \<^verbatim>\<open>_py_files\<close>, \<^verbatim>\<open>_archives\<close>, \<^verbatim>\<open>_driver_class_path\<close>,
  \<^verbatim>\<open>_jars\<close>, \<^verbatim>\<open>_java_class\<close>, \<^verbatim>\<open>_packages\<close>, \<^verbatim>\<open>_exclude_packages\<close>,
  \<^verbatim>\<open>_repositories\<close>, \<^verbatim>\<open>_total_executor_cores\<close>, \<^verbatim>\<open>_executor_cores\<close>,
  \<^verbatim>\<open>_executor_memory\<close>, \<^verbatim>\<open>_driver_memory\<close>, \<^verbatim>\<open>_keytab\<close>, \<^verbatim>\<open>_principal\<close>,
  \<^verbatim>\<open>_proxy_user\<close>, \<^verbatim>\<open>_name\<close>, \<^verbatim>\<open>_num_executors\<close>, \<^verbatim>\<open>_status_poll_interval\<close>,
  \<^verbatim>\<open>_application_args\<close>, \<^verbatim>\<open>_env_vars\<close>, \<^verbatim>\<open>_verbose\<close> and \<^verbatim>\<open>_spark_binary\<close> all keep
  their values. (The attributes are values here; the operator has no statement that
  writes into the dictionaries or the list it holds.)
\<close>

theorem config_fields_immutable:
  "fst (snd (execute hb context self lg))
     = self\<lparr>self_hook := self_hook (fst (snd (execute hb context self lg)))\<rparr>
   \<and> fst (snd (on_kill hb self lg))
     = self\<lparr>self_hook := self_hook (fst (snd (on_kill hb self lg)))\<rparr>"
  by (simp add: execute_def on_kill_def invoke_def split: option.split prod.split sum.split)

text \<open>
  C4. The comma-separated list attributes \<^verbatim>\<open>files\<close>, \<^verbatim>\<open>jars\<close>, \<^verbatim>\<open>packages\<close>,
  \<^verbatim>\<open>exclude_packages\<close> and \<^verbatim>\<open>repositories\<close> reach the hook constructor as the very
  value the operator holds, and the operator holds the very value it was constructed
  with: a string is passed on as that one string (never split, joined or checked), a
  \<^verbatim>\<open>None\<close> or a keyword left out is passed on as \<^verbatim>\<open>None\<close>.
\<close>

theorem list_fields_forwarded_verbatim:
  "(\<exists>a. snd (get_hook hb self lg) = lg @ [New a]
        \<and> files a = self_files self
        \<and> jars a = self_jars self
        \<and> packages a = self_packages self
        \<and> exclude_packages a = self_exclude_packages self
        \<and> repositories a = self_repositories self)
   \<and> (\<exists>a. snd (get_hook hb (init kw) lg) = lg @ [New a]
        \<and> files a = kwarg None (arg_files kw)
        \<and> jars a = kwarg None (arg_jars kw)
        \<and> packages a = kwarg None (arg_packages kw)
        \<and> exclude_packages a = kwarg None (arg_exclude_packages kw)
        \<and> repositories a = kwarg None (arg_repositories kw))"
  by (simp add: get_hook_def SparkSubmitHook_def invoke_def init_def split: option.split)

text \<open>
  C5. \<^verbatim>\<open>_get_hook\<close> is a function of the stored configuration alone: two calls on an
  operator whose configuration attributes are the same, one right after the other or
  at another time, with another hook reference stored or while the hook behaves
  differently, make constructor calls with the same value for every keyword.
\<close>

theorem get_hook_deterministic:
  "\<exists>a. snd (get_hook hb self lg) = lg @ [New a]
      \<and> snd (get_hook hb self (snd (get_hook hb self lg))) = lg @ [New a, New a]
      \<and> snd (get_hook hb' (self\<lparr>self_hook := k\<rparr>) lg') = lg' @ [New a]"
  by (simp add: get_hook_def SparkSubmitHook_def invoke_def split: option.split)



text \<open>
  C9. A keyword left out of the constructor call takes the default of the signature:
  the job name is \<^verbatim>\<open>'arrow-spark'\<close> (and so not \<^verbatim>\<open>'airflow-spark'\<close>), and that is the
  name the hook constructor receives; the application is the empty string, the
  connection id \<^verbatim>\<open>'spark_default'\<close>, the status poll interval 1, verbose \<^verbatim>\<open>False\<close>, and
  every other attribute \<^verbatim>\<open>None\<close>. A new operator holds no hook.
\<close>

theorem init_defaults:
  "(\<exists>a. snd (get_hook hb (init (kw\<lparr>arg_name := None\<rparr>)) lg) = lg @ [New a]
        \<and> name a = ''arrow-spark'' \<and> name a \<noteq> ''airflow-spark'')
   \<and> self_application (init (kw\<lparr>arg_application := None\<rparr>)) = ''''
   \<and> self_conf (init (kw\<lparr>arg_conf := None\<rparr>)) = None
   \<and> self_conn_id (init (kw\<lparr>arg_conn_id := None\<rparr>)) = ''spark_default''
   \<and> self_files (init (kw\<lparr>arg_files := None\<rparr>)) = None
   \<and> self_py_files (init (kw\<lparr>arg_py_files := None\<rparr>)) = None
   \<and> self_archives (init (kw\<lparr>arg_archives := None\<rparr>)) = None
   \<and> self_driver_class_path (init (kw\<lparr>arg_driver_class_path := None\<rparr>)) = None
   \<and> self_jars (init (kw\<lparr>arg_jars := None\<rparr>)) = None
   \<and> self_java_class (init (kw\<lparr>arg_java_class := None\<rparr>)) = None
   \<and> self_packages (init (kw\<lparr>arg_packages := None\<rparr>)) = None
   \<and> self_exclude_packages (init (kw\<lparr>arg_exclude_packages := None\<rparr>)) = None
   \<and> self_repositories (init (kw\<lparr>arg_repositories := None\<rparr>)) = None
   \<and> self_total_executor_cores (init (kw\<lparr>arg_total_executor_cores := None\<rparr>)) = None
   \<and> self_executor_cores (init (kw\<lparr>arg_executor_cores := None\<rparr>)) = None
   \<and> self_executor_memory (init (kw\<lparr>arg_executor_memory := None\<rparr>)) = None
   \<and> self_driver_memory (init (kw\<lparr>arg_driver_memory := None\<rparr>)) = None
   \<and> self_keytab (init (kw\<lparr>arg_keytab := None\<rparr>)) = None
   \<and> self_principal (init (kw\<lparr>arg_principal := None\<rparr>)) = None
   \<and> self_proxy_user (init (kw\<lparr>arg_proxy_user := None\<rparr>)) = None
   \<and> self_name (init (kw\<lparr>arg_name := None\<rparr>)) = ''arrow-spark''
   \<and> self_num_executors (init (kw\<lparr>arg_num_executors := None\<rparr>)) = None
   \<and> self_status_poll_interval (init (kw\<lparr>arg_status_poll_interval := None\<rparr>)) = 1
   \<and> self_application_args (init (kw\<lparr>arg_application_args := None\<rparr>)) = None
   \<and> self_env_vars (init (kw\<lparr>arg_env_vars := None\<rparr>)) = None
   \<and> self_verbose (init (kw\<lparr>arg_verbose := None\<rparr>)) = False
   \<and> self_spark_binary (init (kw\<lparr>arg_spark_binary := None\<rparr>)) = None
   \<and> self_hook (init kw) = None"
  by (simp add: get_hook_def SparkSubmitHook_def invoke_def init_def kwarg_def split: option.split)

subsection \<open>An empty application\<close>

text \<open>
  The operator does not look at the application before handing it over. Built with no
  keyword at all, its application is the empty string; on a hook that returns from
  every call, \<^verbatim>\<open>execute\<close> then returns normally (no \<^verbatim>\<open>ConfigError\<close>, no exception at
  all) and its last call is \<^verbatim>\<open>submit('')\<close> on the hook it built.
\<close>

theorem empty_application_counterexample:
  "self_application (init no_kwargs) = ''''
   \<and> fst (execute quiet_hook [] (init no_kwargs) []) \<noteq> Some ConfigError
   \<and> fst (execute quiet_hook [] (init no_kwargs) []) = None
   \<and> last (snd (snd (execute quiet_hook [] (init no_kwargs) []))) = Submit 0 ''''"
  by (simp add: run_defs)

text \<open>
  C2, as the code has it. With an empty application \<^verbatim>\<open>execute\<close> does no check of its
  own: what it returns or raises is what the last call it made on the hook returned or
  raised, and that call is \<^verbatim>\<open>submit('')\<close> whenever there is a hook (the constructor
  call when the constructor raised). A \<^verbatim>\<open>ConfigError\<close> can only come from the hook.
\<close>

theorem empty_application_forwarded:
  assumes empty: "self_application self = ''''"
    and run: "execute hb context self lg = (r, self', lg')"
  shows "r = hb (butlast lg') (last lg')
       \<and> (case self_hook self' of
             Some h \<Rightarrow> last lg' = Submit h ''''
           | None \<Rightarrow> \<exists>a. last lg' = New a)"
proof (cases "self_hook self")
  case (Some k)
  with run empty show ?thesis
    by (auto simp: execute_cached)
next
  case None
  obtain g lg1 where g: "get_hook hb self lg = (g, lg1)"
    by (cases "get_hook hb self lg")
  obtain a where a: "lg1 = lg @ [New a]"
    using get_hook_log [of hb self lg] g by auto
  show ?thesis
  proof (cases g)
    case (Inl e)
    with None g run a get_hook_raises [of hb self lg e lg1] show ?thesis
      by (auto simp: execute_failed)
  next
    case (Inr k)
    with None g run a empty show ?thesis
      by (auto simp: execute_built butlast_append)
  qed
qed

theorem empty_application_forwarded_witness:
  "self_application (init no_kwargs) = ''''
   \<and> fst (execute quiet_hook [] (init no_kwargs) []) = None
   \<and> self_hook (fst (snd (execute quiet_hook [] (init no_kwargs) []))) = Some 0
   \<and> last (snd (snd (execute quiet_hook [] (init no_kwargs) []))) = Submit 0 ''''"
proof -
  let ?E = "execute quiet_hook [] (init no_kwargs) []"
  have empty: "self_application (init no_kwargs) = ''''"
    by (simp add: init_def no_kwargs_def kwarg_def)
  have run: "?E = (fst ?E, fst (snd ?E), snd (snd ?E))"
    by simp
  have hook: "self_hook (fst (snd ?E)) = Some 0"
    by (simp add: run_defs)
  from empty_application_forwarded [OF empty run] hook empty show ?thesis
    by (simp add: quiet_hook_def)
qed

subsection \<open>The hook over several attempts\<close>

text \<open>
  Two \<^verbatim>\<open>execute\<close> calls on one new operator, on a hook that returns from every call:
  both \<^verbatim>\<open>submit\<close> calls go to the hook at address 0, the one the first call built.
\<close>

theorem hook_reused_counterexample:
  "receivers (snd (snd (executes quiet_hook [no_context, no_context] (init job_kwargs) []))) = [0, 0]
   \<and> \<not> distinct (receivers (snd (snd (executes quiet_hook [no_context, no_context] (init job_kwargs) []))))"
  by (simp add: run_defs)

text \<open>
  C7, as the code has it. The hook is built on first use and kept: once an operator
  instance holds a hook, every later \<^verbatim>\<open>execute\<close> on that instance, however many and
  whatever their outcomes, calls \<^verbatim>\<open>submit\<close> on that same hook object, builds no new
  hook and leaves the operator as it is.
\<close>

theorem hook_cached_across_executes:
  "self_hook self = Some h \<Longrightarrow>
     snd (executes hb cs self lg)
       = (self, lg @ replicate (length cs) (Submit h (self_application self)))"
proof (induction cs arbitrary: lg)
  case Nil
  show ?case by simp
next
  case (Cons c cs)
  have "snd (executes hb cs self (lg @ [Submit h (self_application self)]))
          = (self, (lg @ [Submit h (self_application self)])
                     @ replicate (length cs) (Submit h (self_application self)))"
    using Cons by blast
  then show ?case
    using Cons.prems by (auto simp: execute_cached split: prod.split)
qed

text \<open>After a first \<^verbatim>\<open>execute\<close> of the sample job, three more all go to hook 0.\<close>

theorem hook_cached_across_executes_witness:
  "self_hook (fst (snd (execute quiet_hook [] (init job_kwargs) []))) = Some 0
   \<and> receivers (snd (snd (executes quiet_hook [no_context, no_context, no_context]
                  (fst (snd (execute quiet_hook [] (init job_kwargs) []))) []))) = [0, 0, 0]"
proof -
  let ?S = "fst (snd (execute quiet_hook [] (init job_kwargs) []))"
  have hook: "self_hook ?S = Some 0"
    by (simp add: run_defs)
  note reuse = hook_cached_across_executes [OF hook, of quiet_hook "[no_context, no_context, no_context]" "[]"]
  have "receivers (snd (snd (executes quiet_hook [no_context, no_context, no_context] ?S []))) = [0, 0, 0]"
    by (simp only: reuse) simp
  with hook show ?thesis
    by (rule conjI)
qed

subsection \<open>Cancellation\<close>

text \<open>
  \<^verbatim>\<open>on_kill\<close> on a new operator, before any \<^verbatim>\<open>execute\<close> and so with nothing submitted.
  On a hook that returns from every call the operator and the log are not what they
  were: a hook is built and stored, and \<^verbatim>\<open>on_kill\<close> is called on it. On a hook whose
  constructor raises, \<^verbatim>\<open>on_kill\<close> raises.
\<close>

theorem on_kill_before_execute_counterexample:
  "on_kill quiet_hook (init job_kwargs) [] \<noteq> (None, init job_kwargs, [])
   \<and> self_hook (init job_kwargs) = None
   \<and> self_hook (fst (snd (on_kill quiet_hook (init job_kwargs) []))) = Some 0
   \<and> length (snd (snd (on_kill quiet_hook (init job_kwargs) []))) = 2
   \<and> last (snd (snd (on_kill quiet_hook (init job_kwargs) []))) = OnKill 0
   \<and> fst (on_kill broken_hook (init job_kwargs) []) = Some LaunchError"
  by (simp add: run_defs broken_hook_def)

text \<open>
  C8, as the code has it. \<^verbatim>\<open>on_kill\<close> does not ask whether anything was submitted. If
  the operator holds no hook it first builds one from the stored configuration. If
  afterwards the operator holds a hook \<open>h\<close>, then \<open>h\<close> is the hook it held before or, if
  it held none, the one the constructor just returned; only \<^verbatim>\<open>self._hook\<close> has changed;
  the calls made are the constructor call (only if no hook was held) followed by
  exactly one \<^verbatim>\<open>on_kill\<close> on \<open>h\<close>; and \<^verbatim>\<open>on_kill\<close> returns or raises what that call does.
  If afterwards the operator holds no hook, then the constructor raised: the hook's
  \<^verbatim>\<open>on_kill\<close> was not called, the only call is the constructor call, the operator's
  \<^verbatim>\<open>on_kill\<close> raises the constructor's exception and the operator is unchanged. No
  configuration attribute changes in either case.
\<close>

theorem on_kill_builds_hook_and_forwards:
  assumes run: "on_kill hb self lg = (r, self', lg')"
  shows "(self_hook self' = Some h \<longrightarrow>
            self' = self\<lparr>self_hook := Some h\<rparr>
          \<and> (case self_hook self of
                Some k \<Rightarrow> h = k
              | None \<Rightarrow> fst (get_hook hb self lg) = Inr h)
          \<and> lg' = (case self_hook self of
                     None \<Rightarrow> snd (get_hook hb self lg)
                   | Some k \<Rightarrow> lg) @ [OnKill h]
          \<and> filter is_on_kill (drop (length lg) lg') = [OnKill h]
          \<and> r = hb (butlast lg') (OnKill h))
       \<and> (self_hook self' = None \<longrightarrow>
            self' = self
          \<and> filter is_on_kill (drop (length lg) lg') = []
          \<and> (\<exists>e. r = Some e \<and> get_hook hb self lg = (Inl e, lg')))"
proof (cases "self_hook self")
  case (Some k)
  with run show ?thesis
    by (auto simp: on_kill_cached)
next
  case None
  obtain g lg1 where g: "get_hook hb self lg = (g, lg1)"
    by (cases "get_hook hb self lg")
  obtain a where a: "lg1 = lg @ [New a]"
    using get_hook_log [of hb self lg] g by auto
  show ?thesis
  proof (cases g)
    case (Inl e)
    with None g run a show ?thesis
      by (auto simp: on_kill_failed)
  next
    case (Inr k)
    with None g run a show ?thesis
      by (auto simp: on_kill_built butlast_append)
  qed
qed

text \<open>
  The sample job, \<^verbatim>\<open>on_kill\<close> first. On a hook that returns from every call: hook 0 is
  built, stored and told \<^verbatim>\<open>on_kill\<close>. On a hook whose constructor raises: no \<^verbatim>\<open>on_kill\<close>
  call, \<open>LaunchError\<close> comes out and the operator is as it was.
\<close>

theorem on_kill_builds_hook_and_forwards_witness:
  "self_hook (init job_kwargs) = None
   \<and> self_hook (fst (snd (on_kill quiet_hook (init job_kwargs) []))) = Some 0
   \<and> snd (snd (on_kill quiet_hook (init job_kwargs) []))
       = snd (get_hook quiet_hook (init job_kwargs) []) @ [OnKill 0]
   \<and> fst (snd (on_kill quiet_hook (init job_kwargs) [])) = (init job_kwargs)\<lparr>self_hook := Some 0\<rparr>
   \<and> self_hook (fst (snd (on_kill broken_hook (init job_kwargs) []))) = None
   \<and> fst (snd (on_kill broken_hook (init job_kwargs) [])) = init job_kwargs
   \<and> filter is_on_kill (drop (length ([]::log))
        (snd (snd (on_kill broken_hook (init job_kwargs) [])))) = []
   \<and> fst (on_kill broken_hook (init job_kwargs) []) = Some LaunchError"
proof -
  let ?K = "on_kill quiet_hook (init job_kwargs) []"
  let ?L = "on_kill broken_hook (init job_kwargs) []"
  have runK: "?K = (fst ?K, fst (snd ?K), snd (snd ?K))"
    by simp
  have runL: "?L = (fst ?L, fst (snd ?L), snd (snd ?L))"
    by simp
  have hookK: "self_hook (fst (snd ?K)) = Some 0"
    by (simp add: run_defs)
  have hookL: "self_hook (fst (snd ?L)) = None"
    by (simp add: run_defs broken_hook_def)
  have fresh: "self_hook (init job_kwargs) = None"
    by (simp add: init_def)
  have raised: "fst (get_hook broken_hook (init job_kwargs) []) = Inl LaunchError"
    by (simp add: get_hook_def SparkSubmitHook_def invoke_def broken_hook_def)
  from on_kill_builds_hook_and_forwards [OF runK, of 0, THEN conjunct1] hookK
  have stored: "fst (snd ?K) = (init job_kwargs)\<lparr>self_hook := Some 0\<rparr>"
    and calls: "snd (snd ?K)
                 = (case self_hook (init job_kwargs) of
                      None \<Rightarrow> snd (get_hook quiet_hook (init job_kwargs) [])
                    | Some k \<Rightarrow> []) @ [OnKill 0]"
    by blast+
  from on_kill_builds_hook_and_forwards [OF runL, THEN conjunct2] hookL
  have same: "fst (snd ?L) = init job_kwargs"
    and none: "filter is_on_kill (drop (length ([]::log)) (snd (snd ?L))) = []"
    and outL: "\<exists>e. fst ?L = Some e \<and> get_hook broken_hook (init job_kwargs) [] = (Inl e, snd (snd ?L))"
    by blast+
  from outL raised have out: "fst ?L = Some LaunchError"
    by auto
  from calls fresh have calls': "snd (snd ?K) = snd (get_hook quiet_hook (init job_kwargs) []) @ [OnKill 0]"
    by simp
  from fresh hookK calls' stored hookL same none out show ?thesis
    by blast
qed

end
